theory Spec2Isabelle
  imports Main "HOL-Library.Sublist"
begin

section \<open>Data model (src/src/App.tsx, lines 4-20)\<close>

text \<open>
  The interfaces \<open>Slot\<close> and \<open>Booking\<close> become records. A JavaScript \<open>number\<close> is
  modelled as an \<open>int\<close>: every number the application stores is integral (grid
  coordinates, pixel sizes, \<open>Date.now()\<close> in milliseconds, and a duration entered through
  an \<open>input type="number"\<close> of step one), and integral doubles below \<open>2^53\<close> are exact.
  Field names carry a prefix, since both interfaces have a field \<open>id\<close>.
\<close>

datatype SlotSize = Large | Normal

record Slot =
  slot_id :: string
  slot_row :: int
  slot_col :: int
  slot_width :: int
  slot_height :: int
  slot_size :: SlotSize

record Booking =
  bk_id :: string
  bk_slotId :: string
  bk_name :: string
  bk_plate :: string
  bk_start :: int
  bk_durationMs :: int

text \<open>The argument object of \<open>handleBook\<close> (line 90).\<close>

record BookingData =
  bd_name :: string
  bd_plate :: string
  bd_durationHours :: int

text \<open>
  The state of the component \<open>ParkingApp\<close>: one field for each \<open>useState\<close> hook
  (lines 45-58).
\<close>

record AppState =
  slots :: "Slot list"
  bookings :: "Booking list"
  selectedSlot :: "Slot option"
  showForm :: bool
  query :: string
  detailBooking :: "Booking option"

section \<open>Rendering numbers in template strings\<close>

text \<open>
  A template string such as \<open>`P${id}`\<close> renders an integral number in decimal, with a
  leading minus sign when it is negative (for magnitudes below \<open>10^21\<close>, which is where
  JavaScript switches to exponent notation).
\<close>

fun showNat :: "nat \<Rightarrow> string" where
  "showNat n =
     (if n < 10 then [''0123456789'' ! n]
      else showNat (n div 10) @ [''0123456789'' ! (n mod 10)])"

declare showNat.simps [simp del]

definition showNum :: "int \<Rightarrow> string" where
  "showNum i = (if i < 0 then ''-'' @ showNat (nat (- i)) else showNat (nat i))"

section \<open>formatMs (lines 112-118)\<close>

text \<open>
  \<open>Math.floor(ms / 1000)\<close> is the floor of the quotient, which is \<open>div\<close> on \<open>int\<close>;
  the three further divisions are on the non-negative \<open>s\<close>.
\<close>

definition formatMs :: "int \<Rightarrow> string" where
  "formatMs ms =
     (let s = \<bar>ms div 1000\<bar>;
          h = s div 3600;
          m = (s mod 3600) div 60;
          sec = s mod 60
      in showNum h @ ''h '' @ showNum m @ ''m '' @ showNum sec @ ''s'')"

section \<open>Status projection (lines 79-83)\<close>

text \<open>
  \<open>slotStatus\<close> is the object built by assigning \<open>status[bk.slotId] = bk\<close> for each
  booking in list order, starting from the empty object: a finite map from slot ids to
  bookings. It is recomputed from the booking list, so it is a function of that list.
  (Keys are slot ids; property names that every JavaScript object inherits are not slot
  ids of this application and are outside the model.)
\<close>

definition slotStatus :: "Booking list \<Rightarrow> (string \<rightharpoonup> Booking)" where
  "slotStatus bks = fold (\<lambda>bk status. status(bk_slotId bk \<mapsto> bk)) bks Map.empty"

section \<open>Search filter (lines 120-128)\<close>

text \<open>
  \<open>toLowerCase\<close> on the ASCII letters; every other character is left as it is.
\<close>

definition lowerChar :: "char \<Rightarrow> char" where
  "lowerChar c =
     (case map_of (zip ''ABCDEFGHIJKLMNOPQRSTUVWXYZ'' ''abcdefghijklmnopqrstuvwxyz'') c of
        Some l \<Rightarrow> l
      | None \<Rightarrow> c)"

definition toLowerCase :: "string \<Rightarrow> string" where
  "toLowerCase s = map lowerChar s"

text \<open>
  \<open>s.includes(q)\<close>: the search string occurs in \<open>s\<close> at some position, tried from
  the left.
\<close>

fun includes_str :: "string \<Rightarrow> string \<Rightarrow> bool" where
  "includes_str [] q = (q = [])"
| "includes_str (c # cs) q = (prefix q (c # cs) \<or> includes_str cs q)"

text \<open>
  The callback of \<open>slots.filter\<close>. With no booking for the slot, \<open>b?.plate?...\<close> and
  \<open>b?.name?...\<close> are \<open>undefined\<close>, which the filter reads as false.
\<close>

definition filteredSlots :: "AppState \<Rightarrow> Slot list" where
  "filteredSlots st =
     filter
       (\<lambda>s. let b = slotStatus (bookings st) (slot_id s);
                q = toLowerCase (query st)
            in includes_str (toLowerCase (slot_id s)) q
               \<or> (case b of None \<Rightarrow> False
                   | Some bk \<Rightarrow> includes_str (toLowerCase (bk_plate bk)) q)
               \<or> (case b of None \<Rightarrow> False
                   | Some bk \<Rightarrow> includes_str (toLowerCase (bk_name bk)) q))
       (slots st)"

section \<open>Event handlers\<close>

text \<open>\<open>openBooking\<close> (lines 85-88).\<close>

definition openBooking :: "Slot \<Rightarrow> AppState \<Rightarrow> AppState" where
  "openBooking slot st = st\<lparr>selectedSlot := Some slot, showForm := True\<rparr>"

text \<open>
  \<open>handleBook\<close> (lines 90-104). The value of \<open>Date.now()\<close> is the first argument.
\<close>

definition handleBook :: "int \<Rightarrow> BookingData \<Rightarrow> AppState \<Rightarrow> AppState" where
  "handleBook now d st =
     (case selectedSlot st of
        None \<Rightarrow> st
      | Some sel \<Rightarrow>
          let booking =
                \<lparr>bk_id = ''B'' @ showNum now,
                 bk_slotId = slot_id sel,
                 bk_name = bd_name d,
                 bk_plate = bd_plate d,
                 bk_start = now,
                 bk_durationMs = bd_durationHours d * 60 * 60 * 1000\<rparr>
          in st\<lparr>bookings := bookings st @ [booking],
                showForm := False,
                selectedSlot := None\<rparr>)"

text \<open>
  \<open>endSession\<close> (lines 106-110). The answer of the blocking \<open>confirm\<close> dialog is the
  first argument. \<open>detailBooking?.id === id\<close> is false when no detail panel is open.
\<close>

definition endSession :: "bool \<Rightarrow> string \<Rightarrow> AppState \<Rightarrow> AppState" where
  "endSession confirmed i st =
     (if \<not> confirmed then st
      else
        let st' = st\<lparr>bookings := filter (\<lambda>x. bk_id x \<noteq> i) (bookings st)\<rparr>
        in (case detailBooking st of
              Some d \<Rightarrow> if bk_id d = i then st'\<lparr>detailBooking := None\<rparr> else st'
            | None \<Rightarrow> st'))"

text \<open>
  The \<open>onClick\<close> handler of a slot rectangle (line 165):
  \<open>bk ? setDetailBooking(bk) : openBooking(slot)\<close>, where \<open>bk\<close> is
  \<open>slotStatus[slot.id]\<close>. Only a free slot opens the booking form.
\<close>

definition onClickSlot :: "Slot \<Rightarrow> AppState \<Rightarrow> AppState" where
  "onClickSlot slot st =
     (case slotStatus (bookings st) (slot_id slot) of
        Some bk \<Rightarrow> st\<lparr>detailBooking := Some bk\<rparr>
      | None \<Rightarrow> openBooking slot st)"

section \<open>The component as a transition system\<close>

text \<open>
  Every state update of \<open>ParkingApp\<close> happens in one of these event handlers:
  a click on a slot rectangle (line 165), the submission of the booking form with the
  clock value read by \<open>handleBook\<close> (lines 201, 239), the form's cancel button
  (line 201), a booking card's detail button (line 187), the end buttons with the answer
  to the confirmation dialog (lines 190, 285), the detail panel's close button
  (line 207), typing in the search box (line 140) and the one-second timer (line 69),
  which replaces the booking list by a copy of itself. Which controls are on screen
  restricts the events that can occur in a state; \<open>step\<close> accepts every event in every
  state, which covers all of them.
\<close>

datatype Event =
    ClickSlot Slot
  | SubmitForm int BookingData
  | CancelForm
  | ShowDetail Booking
  | EndSession bool string
  | CloseDetail
  | SetQuery string
  | Tick

fun step :: "Event \<Rightarrow> AppState \<Rightarrow> AppState" where
  "step (ClickSlot slot) st = onClickSlot slot st"
| "step (SubmitForm now d) st = handleBook now d st"
| "step CancelForm st = st\<lparr>showForm := False\<rparr>"
| "step (ShowDetail bk) st = st\<lparr>detailBooking := Some bk\<rparr>"
| "step (EndSession confirmed i) st = endSession confirmed i st"
| "step CloseDetail st = st\<lparr>detailBooking := None\<rparr>"
| "step (SetQuery q) st = st\<lparr>query := q\<rparr>"
| "step Tick st = st\<lparr>bookings := bookings st\<rparr>"

definition runEvents :: "Event list \<Rightarrow> AppState \<Rightarrow> AppState" where
  "runEvents evs st = fold step evs st"

section \<open>Start-up and persistence (lines 25-53, 63-65)\<close>

text \<open>
  \<open>makeDefaultSlots\<close>: the two nested \<open>for\<close> loops, with the list built so far and
  the counter \<open>id\<close> as the loop state. The argument \<open>large\<close> stands for the random
  draws: \<open>large k\<close> tells whether call number \<open>k\<close> (from zero) of \<open>Math.random()\<close>
  returned more than \<open>0.8\<close>. The call for the slot numbered \<open>id\<close> is call \<open>id - 1\<close>.
\<close>

definition makeDefaultSlots :: "nat \<Rightarrow> nat \<Rightarrow> (nat \<Rightarrow> bool) \<Rightarrow> Slot list" where
  "makeDefaultSlots rows cols large =
     fst (fold
            (\<lambda>r. fold
                   (\<lambda>c (acc, i).
                      (acc @ [\<lparr>slot_id = ''P'' @ showNum (int i),
                                slot_row = int r,
                                slot_col = int c,
                                slot_width = 90,
                                slot_height = 150,
                                slot_size = (if large (i - 1) then Large else Normal)\<rparr>],
                       i + 1))
                   [0..<cols])
            [0..<rows]
            ([], 1))"

text \<open>
  The two keys of \<open>localStorage\<close> that the component uses, \<open>parking_slots_v1\<close> and
  \<open>parking_bookings_v1\<close>; \<open>None\<close> is a key that is not set. The JSON text under a key
  is represented by the array it parses to: \<open>JSON.stringify\<close> and \<open>JSON.parse\<close> are
  the platform's, and text that does not parse is outside the model.
\<close>

record Storage =
  parking_slots_v1 :: "Slot list option"
  parking_bookings_v1 :: "Booking list option"

definition emptyStorage :: Storage where
  "emptyStorage = \<lparr>parking_slots_v1 = None, parking_bookings_v1 = None\<rparr>"

text \<open>
  The initial state of the component: the initialisers of the \<open>useState\<close> hooks
  (lines 45-58).
\<close>

definition mount :: "Storage \<Rightarrow> (nat \<Rightarrow> bool) \<Rightarrow> AppState" where
  "mount sto large =
     \<lparr>slots = (case parking_slots_v1 sto of
                  Some raw \<Rightarrow> raw
                | None \<Rightarrow> makeDefaultSlots 4 6 large),
      bookings = (case parking_bookings_v1 sto of
                    Some raw \<Rightarrow> raw
                  | None \<Rightarrow> []),
      selectedSlot = None,
      showForm = False,
      query = [],
      detailBooking = None\<rparr>"

text \<open>
  The effect that runs after the first render and after every change of the booking
  list (lines 63-65). It is the only call of \<open>localStorage.setItem\<close> in the program.
\<close>

definition persist :: "AppState \<Rightarrow> Storage \<Rightarrow> Storage" where
  "persist st sto = sto\<lparr>parking_bookings_v1 := Some (bookings st)\<rparr>"

section \<open>Example data\<close>

definition slotP1 :: Slot where
  "slotP1 = \<lparr>slot_id = ''P1'', slot_row = 0, slot_col = 0, slot_width = 90,
             slot_height = 150, slot_size = Normal\<rparr>"

definition slotP2 :: Slot where
  "slotP2 = \<lparr>slot_id = ''P2'', slot_row = 0, slot_col = 1, slot_width = 90,
             slot_height = 150, slot_size = Normal\<rparr>"

definition formData :: BookingData where
  "formData = \<lparr>bd_name = ''Abdul'', bd_plate = ''B 1234 XY'', bd_durationHours = 2\<rparr>"

definition bookingB1 :: Booking where
  "bookingB1 = \<lparr>bk_id = ''B1000'', bk_slotId = ''P1'', bk_name = ''Abdul'',
                bk_plate = ''B 1234 XY'', bk_start = 1000, bk_durationMs = 7200000\<rparr>"

definition bookingB2 :: Booking where
  "bookingB2 = \<lparr>bk_id = ''B2000'', bk_slotId = ''P1'', bk_name = ''Sari'',
                bk_plate = ''D 77 ZZ'', bk_start = 2000, bk_durationMs = 3600000\<rparr>"

definition bookingB3 :: Booking where
  "bookingB3 = \<lparr>bk_id = ''B3000'', bk_slotId = ''P2'', bk_name = ''Sari'',
                bk_plate = ''D 77 ZZ'', bk_start = 3000, bk_durationMs = 3600000\<rparr>"

definition stateWith :: "Booking list \<Rightarrow> Slot option \<Rightarrow> string \<Rightarrow> AppState" where
  "stateWith bks sel q =
     \<lparr>slots = [slotP1, slotP2], bookings = bks, selectedSlot = sel,
      showForm = (sel \<noteq> None), query = q, detailBooking = None\<rparr>"

section \<open>Properties\<close>

subsection \<open>Auxiliary facts\<close>

lemma fold_status:
  "fold (\<lambda>bk status. status(bk_slotId bk \<mapsto> bk)) bks m s =
     (if filter (\<lambda>bk. bk_slotId bk = s) bks = [] then m s
      else Some (last (filter (\<lambda>bk. bk_slotId bk = s) bks)))"
  by (induction bks arbitrary: m) auto

lemma slotStatus_None_iff: "slotStatus bks s = None \<longleftrightarrow> s \<notin> bk_slotId ` set bks"
  by (auto simp: slotStatus_def fold_status filter_empty_conv)

lemma slotStatus_snoc: "slotStatus (bks @ [b]) = (slotStatus bks)(bk_slotId b \<mapsto> b)"
  by (simp add: slotStatus_def)

lemma includes_str_sublist: "includes_str s q \<longleftrightarrow> sublist q s"
  by (induction s) (auto simp: sublist_Cons_right)

lemma toLowerCase_Nil: "toLowerCase [] = []"
  by (simp add: toLowerCase_def)

lemma bookings_endSession:
  "bookings (endSession True i st) = filter (\<lambda>x. bk_id x \<noteq> i) (bookings st)"
  by (simp add: endSession_def Let_def split: option.splits)

lemma inv_step:
  assumes "distinct (map bk_slotId (bookings st))"
    and "\<forall>sel. selectedSlot st = Some sel \<longrightarrow> slot_id sel \<notin> bk_slotId ` set (bookings st)"
  shows "distinct (map bk_slotId (bookings (step e st)))
    \<and> (\<forall>sel. selectedSlot (step e st) = Some sel \<longrightarrow>
          slot_id sel \<notin> bk_slotId ` set (bookings (step e st)))"
proof (cases e)
  case (ClickSlot slot)
  with assms show ?thesis
    by (auto simp: onClickSlot_def openBooking_def slotStatus_None_iff split: option.splits)
next
  case (SubmitForm now d)
  with assms show ?thesis
    by (auto simp: handleBook_def split: option.splits)
next
  case (EndSession confirmed i)
  with assms show ?thesis
    by (auto simp: endSession_def Let_def distinct_map_filter split: option.splits)
qed (use assms in auto)

lemma inv_run:
  "distinct (map bk_slotId (bookings st)) \<Longrightarrow>
   \<forall>sel. selectedSlot st = Some sel \<longrightarrow> slot_id sel \<notin> bk_slotId ` set (bookings st) \<Longrightarrow>
   distinct (map bk_slotId (bookings (runEvents evs st)))"
proof (induction evs arbitrary: st)
  case Nil
  then show ?case by (simp add: runEvents_def)
next
  case (Cons e evs)
  from inv_step [OF Cons.prems, of e] Cons.IH [of "step e st"]
  show ?case by (simp add: runEvents_def)
qed

lemma distinct_slot_count:
  "distinct (map bk_slotId bks) \<Longrightarrow> length (filter (\<lambda>b. bk_slotId b = s) bks) \<le> 1"
  by (induction bks) (auto simp: filter_empty_conv image_iff)

lemma reload_bookings:
  "bookings (mount (persist st sto) large) = bookings st"
  by (simp add: mount_def persist_def)

lemma reload_slots_stored:
  "parking_slots_v1 sto = Some ss \<Longrightarrow> slots (mount (persist st sto) large) = ss"
  by (simp add: mount_def persist_def)

lemma persist_slots_key: "parking_slots_v1 (persist st sto) = parking_slots_v1 sto"
  by (simp add: persist_def)

subsection \<open>Claims\<close>

text \<open>
  Claim C1, as stated: from the empty list, after any sequence of create and remove
  operations, at most one booking references each slot. \<open>handleBook\<close> does not look at
  the booking list, so creating twice for the same selected slot gives two bookings for
  it; the statement fails for arbitrary sequences of the operations. What the component
  guarantees is the same property along its own events: a click opens the booking form
  only for a slot that \<open>slotStatus\<close> shows free (\<open>onClickSlot\<close>), and \<open>handleBook\<close>
  clears the selection. For every list of events, starting in any state whose booking
  list is empty, and for every slot id, at most one booking references that slot.
\<close>

theorem ui_one_booking_per_slot:
  "bookings st0 = [] \<Longrightarrow>
     length (filter (\<lambda>b. bk_slotId b = s) (bookings (runEvents evs st0))) \<le> 1"
  by (rule distinct_slot_count, rule inv_run) simp_all

text \<open>
  An instance: slot \<open>P1\<close> is clicked and booked, then clicked again and the form
  handler is invoked again. The second click opens the detail panel and the second
  submission finds no selected slot.
\<close>

theorem ui_one_booking_per_slot_witness:
  "bookings (stateWith [] None []) = []
   \<and> bookings (runEvents [ClickSlot slotP1, SubmitForm 1000 formData,
                          ClickSlot slotP1, SubmitForm 2000 formData]
                (stateWith [] None [])) = [bookingB1]
   \<and> length (filter (\<lambda>b. bk_slotId b = ''P1'')
         (bookings (runEvents [ClickSlot slotP1, SubmitForm 1000 formData,
                               ClickSlot slotP1, SubmitForm 2000 formData]
                     (stateWith [] None [])))) \<le> 1"
  using ui_one_booking_per_slot [of "stateWith [] None []" "''P1''"
      "[ClickSlot slotP1, SubmitForm 1000 formData, ClickSlot slotP1, SubmitForm 2000 formData]"]
  by (simp add: stateWith_def runEvents_def onClickSlot_def openBooking_def handleBook_def
      slotStatus_def slotP1_def formData_def bookingB1_def showNum_def showNat.simps)

text \<open>
  The operations alone: opening the form for \<open>P1\<close> and submitting, twice in a row
  from the empty list, leaves two bookings that reference \<open>P1\<close>.
\<close>

theorem create_twice_counterexample:
  "bookings (stateWith [] None []) = []
   \<and> \<not> length (filter (\<lambda>b. bk_slotId b = ''P1'')
         (bookings (handleBook 2000 formData (openBooking slotP1
                     (handleBook 1000 formData (openBooking slotP1
                        (stateWith [] None []))))))) \<le> 1"
  by (simp add: stateWith_def openBooking_def handleBook_def slotP1_def formData_def)

text \<open>
  Claim C2. With a slot selected, \<open>handleBook\<close> appends exactly one booking at the end
  of the list; its \<open>slotId\<close> is the selected slot's id, its \<open>start\<close> is the current
  time and its \<open>durationMs\<close> is \<open>durationHours * 60 * 60 * 1000\<close>. With no slot
  selected it returns the state as it was, so the booking list is unchanged.
\<close>

theorem handleBook_appends:
  "(selectedSlot st = Some sel \<longrightarrow>
      (\<exists>b. bookings (handleBook now d st) = bookings st @ [b]
           \<and> bk_slotId b = slot_id sel
           \<and> bk_start b = now
           \<and> bk_durationMs b = bd_durationHours d * 60 * 60 * 1000))
   \<and> (selectedSlot st = None \<longrightarrow>
         handleBook now d st = st \<and> bookings (handleBook now d st) = bookings st)"
  by (simp add: handleBook_def)

theorem handleBook_appends_witness:
  "selectedSlot (stateWith [bookingB3] (Some slotP1) []) = Some slotP1
   \<and> bookings (handleBook 1000 formData (stateWith [bookingB3] (Some slotP1) [])) =
       [bookingB3, bookingB1]
   \<and> selectedSlot (stateWith [bookingB3] None []) = None
   \<and> bookings (handleBook 1000 formData (stateWith [bookingB3] None [])) = [bookingB3]"
  using handleBook_appends [of "stateWith [bookingB3] (Some slotP1) []" slotP1 1000 formData]
    handleBook_appends [of "stateWith [bookingB3] None []" slotP1 1000 formData]
  by (simp add: stateWith_def handleBook_def slotP1_def formData_def bookingB1_def
      showNum_def showNat.simps)

text \<open>
  Claim C3, as stated: for every booking list that contains \<open>b\<close>, ending \<open>b\<close> leaves
  no booking with the id of \<open>b\<close> and leaves the slot of \<open>b\<close> free in the projection.
  \<open>endSession\<close> filters by booking id only, so the second half needs that no booking
  with another id references the slot of \<open>b\<close> (true in particular when at most one
  booking references each slot). Under that condition both halves hold.
\<close>

theorem endSession_frees_slot:
  assumes "b \<in> set (bookings st)"
    and "\<forall>x\<in>set (bookings st). bk_slotId x = bk_slotId b \<longrightarrow> bk_id x = bk_id b"
  shows "bk_id b \<notin> bk_id ` set (bookings (endSession True (bk_id b) st))
     \<and> slotStatus (bookings (endSession True (bk_id b) st)) (bk_slotId b) = None"
proof
  show "bk_id b \<notin> bk_id ` set (bookings (endSession True (bk_id b) st))"
    by (auto simp: bookings_endSession)
next
  have "bk_slotId x \<noteq> bk_slotId b"
    if "x \<in> set (bookings (endSession True (bk_id b) st))" for x
  proof -
    from that have "x \<in> set (bookings st)" and "bk_id x \<noteq> bk_id b"
      by (simp_all add: bookings_endSession)
    with assms(2) show ?thesis by blast
  qed
  then have "bk_slotId b \<notin> bk_slotId ` set (bookings (endSession True (bk_id b) st))"
    by (metis imageE)
  then show "slotStatus (bookings (endSession True (bk_id b) st)) (bk_slotId b) = None"
    by (simp add: slotStatus_None_iff)
qed

theorem endSession_frees_slot_witness:
  "bookingB1 \<in> set (bookings (stateWith [bookingB1, bookingB3] None []))
   \<and> filter (\<lambda>x. bk_slotId x = bk_slotId bookingB1)
         (bookings (stateWith [bookingB1, bookingB3] None [])) = [bookingB1]
   \<and> bookings (endSession True (bk_id bookingB1) (stateWith [bookingB1, bookingB3] None []))
       = [bookingB3]
   \<and> slotStatus
         (bookings (endSession True (bk_id bookingB1)
                      (stateWith [bookingB1, bookingB3] None [])))
         (bk_slotId bookingB1) = None"
  using endSession_frees_slot [of bookingB1 "stateWith [bookingB1, bookingB3] None []"]
  by (simp add: stateWith_def endSession_def bookingB1_def bookingB3_def)

text \<open>
  Two bookings with different ids on slot \<open>P1\<close>: after the first is ended, the
  projection still shows \<open>P1\<close> occupied, by the second.
\<close>

theorem endSession_shared_slot_counterexample:
  "bookingB1 \<in> set (bookings (stateWith [bookingB1, bookingB2] None []))
   \<and> slotStatus
         (bookings (endSession True (bk_id bookingB1)
                      (stateWith [bookingB1, bookingB2] None [])))
         (bk_slotId bookingB1) = Some bookingB2"
  by (simp add: stateWith_def endSession_def slotStatus_def bookingB1_def bookingB2_def)

text \<open>
  Claim C4. For every booking list and slot id \<open>s\<close>, the status projection gives the
  last booking of the list whose \<open>slotId\<close> is \<open>s\<close>, and no booking when none
  references \<open>s\<close>.
\<close>

theorem slotStatus_last_wins:
  "slotStatus bks s =
     (if filter (\<lambda>bk. bk_slotId bk = s) bks = [] then None
      else Some (last (filter (\<lambda>bk. bk_slotId bk = s) bks)))"
  by (simp add: slotStatus_def fold_status)

text \<open>
  Claim C5. The search filter keeps a slot exactly when the query, lowercased, is a
  substring of the lowercased slot id, or of the lowercased plate or name of the booking
  that the projection gives for the slot. The empty query keeps every slot, and a slot
  without a booking is kept exactly when its id matches.
\<close>

theorem filteredSlots_spec:
  "filteredSlots st =
     filter
       (\<lambda>s. sublist (toLowerCase (query st)) (toLowerCase (slot_id s))
            \<or> (\<exists>b. slotStatus (bookings st) (slot_id s) = Some b
                 \<and> (sublist (toLowerCase (query st)) (toLowerCase (bk_plate b))
                      \<or> sublist (toLowerCase (query st)) (toLowerCase (bk_name b)))))
       (slots st)
   \<and> (query st = [] \<longrightarrow> filteredSlots st = slots st)
   \<and> (slotStatus (bookings st) (slot_id s) = None \<longrightarrow>
        (s \<in> set (filteredSlots st) \<longleftrightarrow>
           s \<in> set (slots st)
           \<and> sublist (toLowerCase (query st)) (toLowerCase (slot_id s))))"
proof (intro conjI impI)
  show "filteredSlots st =
     filter
       (\<lambda>s. sublist (toLowerCase (query st)) (toLowerCase (slot_id s))
            \<or> (\<exists>b. slotStatus (bookings st) (slot_id s) = Some b
                 \<and> (sublist (toLowerCase (query st)) (toLowerCase (bk_plate b))
                      \<or> sublist (toLowerCase (query st)) (toLowerCase (bk_name b)))))
       (slots st)"
    unfolding filteredSlots_def Let_def includes_str_sublist
    by (rule filter_cong) (auto split: option.splits)
next
  assume "query st = []"
  then show "filteredSlots st = slots st"
    by (simp add: filteredSlots_def Let_def includes_str_sublist toLowerCase_Nil)
next
  assume "slotStatus (bookings st) (slot_id s) = None"
  then show "s \<in> set (filteredSlots st) \<longleftrightarrow>
           s \<in> set (slots st)
           \<and> sublist (toLowerCase (query st)) (toLowerCase (slot_id s))"
    by (auto simp: filteredSlots_def Let_def includes_str_sublist)
qed

theorem filteredSlots_spec_witness:
  "query (stateWith [bookingB1] None []) = []
   \<and> filteredSlots (stateWith [bookingB1] None []) = [slotP1, slotP2]
   \<and> slotStatus (bookings (stateWith [bookingB1] None ''p2'')) (slot_id slotP2) = None
   \<and> slotP2 \<in> set (filteredSlots (stateWith [bookingB1] None ''p2''))
   \<and> sublist (toLowerCase ''p2'') (toLowerCase (slot_id slotP2))"
  using filteredSlots_spec [of "stateWith [bookingB1] None []" slotP2]
    filteredSlots_spec [of "stateWith [bookingB1] None ''p2''" slotP2]
  by (simp add: stateWith_def slotStatus_def bookingB1_def slotP1_def slotP2_def
      toLowerCase_def lowerChar_def)

text \<open>
  Claim C6, as stated: for the query \<open>AB\<close> the filter returns exactly the slots whose
  id or whose booking's plate contains \<open>ab\<close>, ignoring case, and no others. The filter
  also matches the booking's name, so the result is: the slots whose id, or whose
  booking's plate, or whose booking's name contains \<open>ab\<close>, ignoring case.
\<close>

theorem filteredSlots_AB:
  "query st = ''AB'' \<Longrightarrow>
     filteredSlots st =
       filter
         (\<lambda>s. sublist ''ab'' (toLowerCase (slot_id s))
              \<or> (\<exists>b. slotStatus (bookings st) (slot_id s) = Some b
                   \<and> (sublist ''ab'' (toLowerCase (bk_plate b))
                        \<or> sublist ''ab'' (toLowerCase (bk_name b)))))
         (slots st)"
proof -
  assume q: "query st = ''AB''"
  have l: "toLowerCase ''AB'' = ''ab''"
    by (simp add: toLowerCase_def lowerChar_def)
  show ?thesis
    unfolding filteredSlots_def Let_def includes_str_sublist q l
    by (rule filter_cong) (auto split: option.splits)
qed

theorem filteredSlots_AB_witness:
  "query (stateWith [bookingB1] None ''AB'') = ''AB''
   \<and> filteredSlots (stateWith [bookingB1] None ''AB'') = [slotP1]"
  using filteredSlots_AB [of "stateWith [bookingB1] None ''AB''"]
  by (simp add: stateWith_def slotStatus_def bookingB1_def slotP1_def slotP2_def
      toLowerCase_def lowerChar_def flip: includes_str_sublist)

text \<open>
  Slot \<open>P1\<close> booked by \<open>Abdul\<close> with plate \<open>B 1234 XY\<close>: the query \<open>AB\<close> returns
  \<open>P1\<close>, although neither its id nor the plate contains \<open>ab\<close>.
\<close>

theorem filteredSlots_AB_name_counterexample:
  "query (stateWith [bookingB1] None ''AB'') = ''AB''
   \<and> slotP1 \<in> set (filteredSlots (stateWith [bookingB1] None ''AB''))
   \<and> slotStatus (bookings (stateWith [bookingB1] None ''AB'')) (slot_id slotP1) = Some bookingB1
   \<and> \<not> sublist ''ab'' (toLowerCase (bk_plate bookingB1))
   \<and> \<not> sublist ''ab'' (toLowerCase (slot_id slotP1))"
  by (simp add: filteredSlots_def stateWith_def slotStatus_def bookingB1_def slotP1_def
      slotP2_def toLowerCase_def lowerChar_def flip: includes_str_sublist)

text \<open>
  Claim C7. For every state in which slot \<open>S\<close> is selected, and every submitted name
  and plate, the projection computed from the booking list after \<open>handleBook\<close> shows
  \<open>S\<close> occupied by a booking with that name and plate, whatever the list held before.
\<close>

theorem create_then_project:
  "selectedSlot st = Some S \<Longrightarrow>
     \<exists>b. slotStatus (bookings (handleBook now d st)) (slot_id S) = Some b
         \<and> bk_name b = bd_name d \<and> bk_plate b = bd_plate d"
  by (simp add: handleBook_def slotStatus_snoc)

theorem create_then_project_witness:
  "selectedSlot (stateWith [bookingB2] (Some slotP1) []) = Some slotP1
   \<and> slotStatus (bookings (handleBook 1000 formData (stateWith [bookingB2] (Some slotP1) [])))
        (slot_id slotP1) = Some bookingB1"
  using create_then_project [of "stateWith [bookingB2] (Some slotP1) []" slotP1 1000 formData]
  by (simp add: stateWith_def handleBook_def slotP1_def formData_def bookingB1_def
      showNum_def showNat.simps slotStatus_def bookingB2_def)

text \<open>
  Claim C8. \<open>formatMs(-5000)\<close> is the string \<open>0h 0m 5s\<close>, the overtime rendering of
  five seconds past due, and \<open>formatMs(3661000)\<close> is \<open>1h 1m 1s\<close>.
\<close>

theorem formatMs_examples:
  "formatMs (- 5000) = ''0h 0m 5s'' \<and> formatMs 3661000 = ''1h 1m 1s''"
  by (simp add: formatMs_def showNum_def showNat.simps)

text \<open>
  Claim C9: reloading restores the slot list and the booking list of the prior session.
  The booking list comes back (\<open>reload_bookings\<close>), but \<open>persist\<close> never sets the
  slot key, so a first run on empty storage leaves it unset and the next run generates
  the slots again with new random draws. Here the first run draws a large \<open>P1\<close> and
  the second a normal one: the slot list after the reload differs from the one before.
\<close>

theorem reload_regenerates_slots:
  "parking_slots_v1 (persist (mount emptyStorage (\<lambda>k. k = 0)) emptyStorage) = None
   \<and> hd (slots (mount emptyStorage (\<lambda>k. k = 0))) =
       \<lparr>slot_id = ''P1'', slot_row = 0, slot_col = 0, slot_width = 90,
        slot_height = 150, slot_size = Large\<rparr>
   \<and> hd (slots (mount (persist (mount emptyStorage (\<lambda>k. k = 0)) emptyStorage) (\<lambda>k. False))) =
       \<lparr>slot_id = ''P1'', slot_row = 0, slot_col = 0, slot_width = 90,
        slot_height = 150, slot_size = Normal\<rparr>
   \<and> slots (mount (persist (mount emptyStorage (\<lambda>k. k = 0)) emptyStorage) (\<lambda>k. False))
       \<noteq> slots (mount emptyStorage (\<lambda>k. k = 0))"
  by (simp add: mount_def persist_def emptyStorage_def makeDefaultSlots_def
      showNum_def showNat.simps upt_rec [of _ "numeral _"])

text \<open>
  Claim C10. When the user declines the confirmation, \<open>endSession\<close> changes nothing:
  the whole component state, and so the booking list and the detail-panel selection,
  is as before, for every state and every booking id.
\<close>

theorem endSession_declined:
  "endSession False i st = st
   \<and> bookings (endSession False i st) = bookings st
   \<and> detailBooking (endSession False i st) = detailBooking st"
  by (simp add: endSession_def)

end
